theory Spec2Isabelle
  imports Complex_Main
begin

section \<open>JavaScript numbers\<close>

text \<open>
  Every quantity of the application is a JavaScript number.  The model keeps the four
  kinds of value that the code can tell apart: a finite number, the two infinities and
  NaN.  Finite arithmetic is exact (rounding and overflow of IEEE doubles are not
  modelled) and zero carries no sign, so a non-zero finite number divided by zero has
  the sign of the dividend.  A property that is read as \<open>undefined\<close> (a token of the
  registry has no \<open>price\<close>) is NaN in every arithmetic position, which is what
  ToNumber makes of it.
\<close>

datatype jsnum = Fin real | PInf | NInf | NaN

fun js_neg :: "jsnum \<Rightarrow> jsnum" where
  "js_neg (Fin a) = Fin (- a)"
| "js_neg PInf = NInf"
| "js_neg NInf = PInf"
| "js_neg NaN = NaN"

fun js_add :: "jsnum \<Rightarrow> jsnum \<Rightarrow> jsnum" where
  "js_add (Fin a) (Fin b) = Fin (a + b)"
| "js_add NaN _ = NaN"
| "js_add _ NaN = NaN"
| "js_add PInf NInf = NaN"
| "js_add NInf PInf = NaN"
| "js_add PInf _ = PInf"
| "js_add _ PInf = PInf"
| "js_add NInf _ = NInf"
| "js_add _ NInf = NInf"

definition js_sub :: "jsnum \<Rightarrow> jsnum \<Rightarrow> jsnum" where
  "js_sub x y = js_add x (js_neg y)"

definition signed_inf :: "bool \<Rightarrow> jsnum" where
  "signed_inf positive = (if positive then PInf else NInf)"

fun js_mul :: "jsnum \<Rightarrow> jsnum \<Rightarrow> jsnum" where
  "js_mul (Fin a) (Fin b) = Fin (a * b)"
| "js_mul NaN _ = NaN"
| "js_mul _ NaN = NaN"
| "js_mul (Fin a) PInf = (if a = 0 then NaN else signed_inf (0 < a))"
| "js_mul (Fin a) NInf = (if a = 0 then NaN else signed_inf (a < 0))"
| "js_mul PInf (Fin b) = (if b = 0 then NaN else signed_inf (0 < b))"
| "js_mul NInf (Fin b) = (if b = 0 then NaN else signed_inf (b < 0))"
| "js_mul PInf PInf = PInf"
| "js_mul NInf NInf = PInf"
| "js_mul PInf NInf = NInf"
| "js_mul NInf PInf = NInf"

fun js_div :: "jsnum \<Rightarrow> jsnum \<Rightarrow> jsnum" where
  "js_div (Fin a) (Fin b) =
     (if b = 0 then (if a = 0 then NaN else signed_inf (0 < a)) else Fin (a / b))"
| "js_div NaN _ = NaN"
| "js_div _ NaN = NaN"
| "js_div (Fin a) PInf = Fin 0"
| "js_div (Fin a) NInf = Fin 0"
| "js_div PInf (Fin b) = signed_inf (0 \<le> b)"
| "js_div NInf (Fin b) = signed_inf (b < 0)"
| "js_div PInf PInf = NaN"
| "js_div PInf NInf = NaN"
| "js_div NInf PInf = NaN"
| "js_div NInf NInf = NaN"

text \<open>The comparison operators: every comparison with NaN is false.\<close>

fun js_lt :: "jsnum \<Rightarrow> jsnum \<Rightarrow> bool" where
  "js_lt (Fin a) (Fin b) = (a < b)"
| "js_lt NaN _ = False"
| "js_lt _ NaN = False"
| "js_lt PInf _ = False"
| "js_lt _ NInf = False"
| "js_lt NInf _ = True"
| "js_lt _ PInf = True"

fun js_le :: "jsnum \<Rightarrow> jsnum \<Rightarrow> bool" where
  "js_le (Fin a) (Fin b) = (a \<le> b)"
| "js_le NaN _ = False"
| "js_le _ NaN = False"
| "js_le NInf _ = True"
| "js_le _ PInf = True"
| "js_le PInf _ = False"
| "js_le _ NInf = False"

definition js_gt :: "jsnum \<Rightarrow> jsnum \<Rightarrow> bool" where
  "js_gt x y = js_lt y x"

definition js_ge :: "jsnum \<Rightarrow> jsnum \<Rightarrow> bool" where
  "js_ge x y = js_le y x"

text \<open>Strict equality \<open>===\<close> of two numbers: NaN equals nothing, itself included.\<close>

definition js_eq :: "jsnum \<Rightarrow> jsnum \<Rightarrow> bool" where
  "js_eq x y = (x \<noteq> NaN \<and> x = y)"

text \<open>A number in a boolean position: zero and NaN are falsy.\<close>

definition js_truthy :: "jsnum \<Rightarrow> bool" where
  "js_truthy x = (x \<noteq> Fin 0 \<and> x \<noteq> NaN)"

text \<open>
  \<open>x.toFixed(d)\<close>: the decimal with \<open>d\<close> fraction digits nearest to \<open>x\<close>, the larger
  magnitude on a tie.  The text is kept as the scaled integer together with \<open>d\<close>;
  numbers of magnitude \<open>10^21\<close> and more are printed in exponent form.
\<close>

datatype num_text =
    Decimal int nat
  | Exponential real
  | Text_NaN
  | Text_Infinity
  | Text_NegInfinity

fun toFixed :: "nat \<Rightarrow> jsnum \<Rightarrow> num_text" where
  "toFixed d (Fin x) =
     (if 10 ^ 21 \<le> \<bar>x\<bar> then Exponential x
      else if x < 0 then Decimal (- \<lfloor>- x * 10 ^ d + 1 / 2\<rfloor>) d
      else Decimal \<lfloor>x * 10 ^ d + 1 / 2\<rfloor> d)"
| "toFixed d PInf = Text_Infinity"
| "toFixed d NInf = Text_NegInfinity"
| "toFixed d NaN = Text_NaN"


section \<open>Formatters (utils/formatters)\<close>

text \<open>
  \<open>formatHealthFactor(collateral, debt, liquidationThreshold = 0.85)\<close> returns either
  the infinity sign or the text of \<open>toFixed(2)\<close>.  An omitted third argument is \<open>None\<close>.
\<close>

datatype hf_text = Infinity_sign | Number_text num_text

definition formatHealthFactor :: "jsnum \<Rightarrow> jsnum \<Rightarrow> jsnum option \<Rightarrow> hf_text" where
  "formatHealthFactor collateral debt liquidationThreshold =
     (let threshold = (case liquidationThreshold of None \<Rightarrow> Fin 0.85 | Some t \<Rightarrow> t) in
      if js_eq debt (Fin 0) then Infinity_sign
      else
        let healthFactor = js_div (js_mul collateral threshold) debt in
        if js_gt healthFactor (Fin 100) then Infinity_sign
        else Number_text (toFixed 2 healthFactor))"

datatype emoji = Check_mark | Warning_sign | Siren | Skull

record hf_status =
  status_color :: string
  status_text :: string
  status_emoji :: emoji

definition getHealthFactorStatus :: "jsnum \<Rightarrow> hf_status" where
  "getHealthFactorStatus healthFactor =
     (if js_eq healthFactor PInf \<or> js_gt healthFactor (Fin 10) then
        \<lparr>status_color = ''green'', status_text = ''Healthy'', status_emoji = Check_mark\<rparr>
      else if js_ge healthFactor (Fin 2) then
        \<lparr>status_color = ''green'', status_text = ''Safe'', status_emoji = Check_mark\<rparr>
      else if js_ge healthFactor (Fin 1.5) then
        \<lparr>status_color = ''yellow'', status_text = ''Moderate'', status_emoji = Warning_sign\<rparr>
      else if js_ge healthFactor (Fin 1.2) then
        \<lparr>status_color = ''orange'', status_text = ''Warning'', status_emoji = Warning_sign\<rparr>
      else if js_ge healthFactor (Fin 1.0) then
        \<lparr>status_color = ''red'', status_text = ''Critical'', status_emoji = Siren\<rparr>
      else
        \<lparr>status_color = ''red'', status_text = ''Liquidatable'', status_emoji = Skull\<rparr>)"

subsection \<open>Constants (utils/constants)\<close>

definition HEALTH_FACTOR_CRITICAL :: jsnum where "HEALTH_FACTOR_CRITICAL = Fin 1.0"
definition HEALTH_FACTOR_WARNING :: jsnum where "HEALTH_FACTOR_WARNING = Fin 1.2"
definition HEALTH_FACTOR_SAFE :: jsnum where "HEALTH_FACTOR_SAFE = Fin 1.5"
definition HEALTH_FACTOR_HEALTHY :: jsnum where "HEALTH_FACTOR_HEALTHY = Fin 2.0"

text \<open>
  A token of \<open>SUPPORTED_TOKENS\<close>.  The display fields (name, address, logo and the two
  flags) are left out.  No entry of the registry has a \<open>price\<close> property, so the
  \<open>token.price\<close> that the hooks read from such an entry is \<open>undefined\<close>: NaN.
\<close>

record token =
  symbol :: string
  decimals :: nat
  price :: jsnum
  supplyAPY :: jsnum
  borrowAPY :: jsnum
  ltv :: jsnum
  liquidationThreshold :: jsnum
  liquidationBonus :: jsnum

definition TOKEN_USDC :: token where
  "TOKEN_USDC = \<lparr>symbol = ''USDC'', decimals = 6, price = NaN, supplyAPY = Fin 4.2,
     borrowAPY = Fin 6.8, ltv = Fin 0.87, liquidationThreshold = Fin 0.9,
     liquidationBonus = Fin 0.045\<rparr>"

definition TOKEN_DAI :: token where
  "TOKEN_DAI = \<lparr>symbol = ''DAI'', decimals = 18, price = NaN, supplyAPY = Fin 4.0,
     borrowAPY = Fin 6.5, ltv = Fin 0.85, liquidationThreshold = Fin 0.88,
     liquidationBonus = Fin 0.045\<rparr>"

section \<open>Prediction on live account data (services/blockchain)\<close>

text \<open>
  \<open>getUserAccountData\<close> and \<open>getAssetPrice\<close> read the lending pool and the price
  oracle.  Either read may throw; the prediction rethrows.  The two reads are arguments
  of the model, an error on the left.  \<open>amount\<close> stands for \<open>parseFloat(amount)\<close>.
  The fields \<open>ltv\<close> and \<open>healthFactor\<close> of the account data are named \<open>currentLtv\<close> and
  \<open>currentHealthFactor\<close> here, apart from the fields of the same name elsewhere.
\<close>

type_synonym ext_error = string

record account_data =
  totalCollateralETH :: jsnum
  totalDebtETH :: jsnum
  availableBorrowsETH :: jsnum
  currentLiquidationThreshold :: jsnum
  currentLtv :: jsnum
  currentHealthFactor :: jsnum

definition calculateHealthFactorAfterAction ::
  "(ext_error + account_data) \<Rightarrow> (ext_error + jsnum) \<Rightarrow> jsnum \<Rightarrow> string \<Rightarrow> ext_error + jsnum"
where
  "calculateHealthFactorAfterAction userAccountData assetPriceRead amount action =
     (case userAccountData of
        Inl e \<Rightarrow> Inl e
      | Inr accountData \<Rightarrow>
          (case assetPriceRead of
             Inl e \<Rightarrow> Inl e
           | Inr assetPrice \<Rightarrow>
               let amountInUSD = js_mul amount assetPrice;
                   newCollateral =
                     (if action = ''supply'' then js_add (totalCollateralETH accountData) amountInUSD
                      else if action = ''withdraw'' then js_sub (totalCollateralETH accountData) amountInUSD
                      else totalCollateralETH accountData);
                   newDebt =
                     (if action = ''borrow'' then js_add (totalDebtETH accountData) amountInUSD
                      else if action = ''repay'' then js_sub (totalDebtETH accountData) amountInUSD
                      else totalDebtETH accountData)
               in if js_eq newDebt (Fin 0) then Inr PInf
                  else Inr (js_div (js_mul newCollateral (currentLiquidationThreshold accountData))
                              newDebt)))"


section \<open>Session state (contexts/ContractContext)\<close>

text \<open>
  An amount typed into a form reaches the hooks as a string, or not at all (\<open>null\<close>).
  \<open>Blank\<close> is a falsy amount (\<open>null\<close>, \<open>undefined\<close> or the empty string); \<open>Entered v\<close>
  is a non-empty string that reads as the number \<open>v\<close>.
\<close>

datatype amount_input = Blank | Entered jsnum

fun parseFloat :: "amount_input \<Rightarrow> jsnum" where
  "parseFloat Blank = NaN"
| "parseFloat (Entered v) = v"


text \<open>The negation \<open>!amount\<close>.\<close>

fun amount_falsy :: "amount_input \<Rightarrow> bool" where
  "amount_falsy Blank = True"
| "amount_falsy (Entered v) = False"

record position =
  pos_id :: int
  token :: token
  amount :: jsnum
  apy :: jsnum
  txHash :: string

text \<open>
  The state of the provider.  The transaction log is left out: none of the functions
  below reads it.  The \<open>id\<close> of a position is \<open>pos_id\<close> and the \<open>error\<close> of the state
  is \<open>error_msg\<close>.
\<close>

record contract_state =
  supplies :: "position list"
  borrows :: "position list"
  totalSupplied :: jsnum
  totalBorrowed :: jsnum
  healthFactor :: jsnum
  availableToBorrow :: jsnum
  isLoading :: bool
  error_msg :: "string option"

text \<open>
  \<open>loadUserAccountData\<close>: nothing happens without a provider (\<open>None\<close>) or when the
  read throws (the error is logged only); otherwise the four totals are replaced by
  what the pool reports.
\<close>

definition loadUserAccountData ::
  "(ext_error + account_data) option \<Rightarrow> contract_state \<Rightarrow> contract_state"
where
  "loadUserAccountData account_read st =
     (case account_read of
        None \<Rightarrow> st
      | Some (Inl e) \<Rightarrow> st
      | Some (Inr userData) \<Rightarrow>
          st\<lparr>totalSupplied := totalCollateralETH userData,
             totalBorrowed := totalDebtETH userData,
             availableToBorrow := availableBorrowsETH userData,
             healthFactor := currentHealthFactor userData\<rparr>)"

text \<open>
  The lending pool: everything between reading the position and the confirmed receipt
  (\<open>parseUnits\<close>, the approval, sending the transaction, waiting for it) is one call that
  is given the token and the quantity and returns the receipt's hash or throws.
\<close>

type_synonym pool_call = "token \<Rightarrow> jsnum \<Rightarrow> ext_error + string"

definition failed :: "ext_error \<Rightarrow> contract_state \<Rightarrow> (ext_error + string) \<times> contract_state" where
  "failed e st = (Inl e, st\<lparr>error_msg := Some e, isLoading := False\<rparr>)"

text \<open>
  \<open>supply\<close> (named \<open>supply_assets\<close> here, \<open>supply\<close> being a command of Isabelle): after
  the confirmed deposit a position is appended, its \<open>id\<close> the time of the call and its
  APY the token's \<open>supplyAPY\<close>, and the supplied total grows by amount times
  \<open>token.price\<close>.  The \<open>timestamp\<close> of a position is left out.
\<close>

definition supply_assets ::
  "bool \<Rightarrow> pool_call \<Rightarrow> (ext_error + account_data) option \<Rightarrow> int \<Rightarrow> token \<Rightarrow> amount_input \<Rightarrow>
     contract_state \<Rightarrow> (ext_error + string) \<times> contract_state"
where
  "supply_assets walletConnected pool account_read now tok amt st0 =
     (if \<not> walletConnected then (Inl ''Wallet not connected'', st0)
      else
        let st = st0\<lparr>isLoading := True, error_msg := None\<rparr> in
        case pool tok (parseFloat amt) of
          Inl e \<Rightarrow> failed e st
        | Inr receipt \<Rightarrow>
            let newSupply =
                  \<lparr>pos_id = now, token = tok, amount = parseFloat amt, apy = supplyAPY tok,
                   txHash = receipt\<rparr>;
                st1 = st\<lparr>supplies := supplies st @ [newSupply],
                         totalSupplied :=
                           js_add (totalSupplied st) (js_mul (parseFloat amt) (price tok))\<rparr>
            in (Inr receipt, (loadUserAccountData account_read st1)\<lparr>isLoading := False\<rparr>))"



section \<open>Borrowing (hooks/useBorrow)\<close>

definition getMaxBorrowable :: "contract_state \<Rightarrow> token \<Rightarrow> jsnum" where
  "getMaxBorrowable st tok =
     (let maxInToken = js_div (availableToBorrow st) (price tok) in js_mul maxInToken (Fin 0.99))"

definition calculateNewHealthFactor :: "contract_state \<Rightarrow> amount_input \<Rightarrow> token \<Rightarrow> jsnum" where
  "calculateNewHealthFactor st borrowAmount tok =
     (if amount_falsy borrowAmount \<or> js_eq (parseFloat borrowAmount) (Fin 0) then healthFactor st
      else
        let borrowValue = js_mul (parseFloat borrowAmount) (price tok);
            newTotalBorrowed = js_add (totalBorrowed st) borrowValue
        in if js_eq newTotalBorrowed (Fin 0) then PInf
           else js_div (js_mul (totalSupplied st) (Fin 0.85)) newTotalBorrowed)"

text \<open>
  The messages that \<open>setError\<close> receives; the two that quote a number carry its
  \<open>toFixed\<close> text.
\<close>

datatype borrow_error =
    Enter_valid_amount
  | Select_token
  | Maximum_borrowable num_text string
  | Risky_health_factor num_text
  | Connect_wallet

text \<open>The result and the error that the hook holds afterwards (\<open>None\<close>: cleared).\<close>

definition validateBorrowAmount ::
  "contract_state \<Rightarrow> amount_input \<Rightarrow> token option \<Rightarrow> bool \<times> borrow_error option"
where
  "validateBorrowAmount st amt tok_opt =
     (if amount_falsy amt \<or> js_le (parseFloat amt) (Fin 0) then (False, Some Enter_valid_amount)
      else case tok_opt of
        None \<Rightarrow> (False, Some Select_token)
      | Some tok \<Rightarrow>
          let amountNum = parseFloat amt;
              maxBorrowable = getMaxBorrowable st tok
          in if js_gt amountNum maxBorrowable then
               (False, Some (Maximum_borrowable (toFixed 4 maxBorrowable) (symbol tok)))
             else
               let newHF = calculateNewHealthFactor st amt tok in
               if js_lt newHF HEALTH_FACTOR_SAFE then
                 (False, Some (Risky_health_factor (toFixed 2 newHF)))
               else (True, None))"

text \<open>
  \<open>borrow\<close> hands the request to the pool only when the wallet is connected and the
  validation accepts; otherwise it returns \<open>null\<close> and nothing is submitted.
\<close>

datatype borrow_result = Not_submitted "borrow_error option" | Submitted "ext_error + string"

definition borrow ::
  "bool \<Rightarrow> pool_call \<Rightarrow> contract_state \<Rightarrow> token \<Rightarrow> amount_input \<Rightarrow> borrow_result"
where
  "borrow isConnected borrowFromPool st tok amt =
     (if \<not> isConnected then Not_submitted (Some Connect_wallet)
      else case validateBorrowAmount st amt (Some tok) of
        (False, e) \<Rightarrow> Not_submitted e
      | (True, e) \<Rightarrow> Submitted (borrowFromPool tok (parseFloat amt)))"


section \<open>Price service (services/priceService)\<close>

text \<open>
  The CoinGecko answer maps a token id to its quote; a property that is missing is
  \<open>None\<close>.  \<open>getTokenPrices\<close> (the request) is an argument of the model: it returns
  the body of the answer or throws.  The fields \<open>symbol\<close>, \<open>price\<close> and \<open>timestamp\<close> of
  the price data carry the prefix \<open>quote_\<close>, apart from the token's fields.

  The cache is a map from keys to entries.  The lookups of several tokens and of the
  price history store under keys that begin with \<open>prices_\<close> and \<open>history_\<close>, which are
  never a key \<open>price_\<close> followed by a symbol; the model keeps the entries of
  \<open>getTokenPrice\<close>.
\<close>

record coin_quote =
  usd :: "jsnum option"
  usd_24h_change :: "jsnum option"
  usd_market_cap :: "jsnum option"

type_synonym price_response = "string \<rightharpoonup> coin_quote"

type_synonym price_fetch = "string list \<Rightarrow> ext_error + price_response"

record price_data =
  quote_symbol :: string
  quote_price :: jsnum
  change24h :: jsnum
  marketCap :: jsnum
  quote_timestamp :: int

record cache_entry =
  data :: price_data
  stored_at :: int

type_synonym price_cache = "string \<rightharpoonup> cache_entry"

definition CACHE_DURATION :: int where
  "CACHE_DURATION = 60000"

definition TOKEN_ID_MAP :: "(string \<times> string) list" where
  "TOKEN_ID_MAP =
     [(''ETH'', ''ethereum''), (''WETH'', ''weth''), (''WBTC'', ''wrapped-bitcoin''),
      (''USDC'', ''usd-coin''), (''USDT'', ''tether''), (''DAI'', ''dai''),
      (''LINK'', ''chainlink''), (''UNI'', ''uniswap''), (''AAVE'', ''aave''),
      (''COMP'', ''compound-governance-token'')]"

definition lower_char :: "char \<Rightarrow> char" where
  "lower_char c =
     (let n = (of_char c :: nat) in if 65 \<le> n \<and> n \<le> 90 then char_of (n + 32) else c)"

definition toLowerCase :: "string \<Rightarrow> string" where
  "toLowerCase s = map lower_char s"

definition getTokenId :: "string \<Rightarrow> string" where
  "getTokenId tokenSymbol =
     (case map_of TOKEN_ID_MAP tokenSymbol of Some tokenId \<Rightarrow> tokenId | None \<Rightarrow> toLowerCase tokenSymbol)"

text \<open>\<open>x?.field || 0\<close>: a missing, zero or NaN value reads as 0.\<close>

definition or_zero :: "jsnum option \<Rightarrow> jsnum" where
  "or_zero v = (case v of None \<Rightarrow> Fin 0 | Some x \<Rightarrow> if js_truthy x then x else Fin 0)"

definition quote_field :: "price_response \<Rightarrow> string \<Rightarrow> (coin_quote \<Rightarrow> jsnum option) \<Rightarrow> jsnum option" where
  "quote_field prices tokenId field = (case prices tokenId of None \<Rightarrow> None | Some q \<Rightarrow> field q)"

definition getCachedPrice :: "int \<Rightarrow> price_cache \<Rightarrow> string \<Rightarrow> price_data option" where
  "getCachedPrice now cache key =
     (case cache key of
        None \<Rightarrow> None
      | Some cached \<Rightarrow> if now - stored_at cached < CACHE_DURATION then Some (data cached) else None)"

definition setCachedPrice :: "int \<Rightarrow> price_cache \<Rightarrow> string \<Rightarrow> price_data \<Rightarrow> price_cache" where
  "setCachedPrice now cache key d = cache(key \<mapsto> \<lparr>data = d, stored_at = now\<rparr>)"

text \<open>
  \<open>getTokenPrice\<close> returns the price data; the model returns with it the cache as the
  call leaves it and the requests that were issued, in order.  \<open>Date.now()\<close> is read
  at the cache check (\<open>now\<close>), when the price data is built (\<open>now_data\<close>) and when it is
  stored (\<open>now_store\<close>).
\<close>

record price_lookup =
  returned :: price_data
  cache_after :: price_cache
  requests :: "string list list"

definition getTokenPrice ::
  "price_fetch \<Rightarrow> int \<Rightarrow> int \<Rightarrow> int \<Rightarrow> price_cache \<Rightarrow> string \<Rightarrow> price_lookup"
where
  "getTokenPrice getTokenPrices now now_data now_store cache tokenSymbol =
     (let cacheKey = ''price_'' @ tokenSymbol in
      case getCachedPrice now cache cacheKey of
        Some cached \<Rightarrow> \<lparr>returned = cached, cache_after = cache, requests = []\<rparr>
      | None \<Rightarrow>
          let tokenId = getTokenId tokenSymbol in
          (case getTokenPrices [tokenId] of
             Inr prices \<Rightarrow>
               let priceData =
                 \<lparr>quote_symbol = tokenSymbol,
                  quote_price = or_zero (quote_field prices tokenId usd),
                  change24h = or_zero (quote_field prices tokenId usd_24h_change),
                  marketCap = or_zero (quote_field prices tokenId usd_market_cap),
                  quote_timestamp = now_data\<rparr>
               in \<lparr>returned = priceData,
                   cache_after = setCachedPrice now_store cache cacheKey priceData,
                   requests = [[tokenId]]\<rparr>
           | Inl e \<Rightarrow>
               (case cache cacheKey of
                  Some cached \<Rightarrow>
                    \<lparr>returned = data cached, cache_after = cache, requests = [[tokenId]]\<rparr>
                | None \<Rightarrow>
                    \<lparr>returned =
                       \<lparr>quote_symbol = tokenSymbol, quote_price = Fin 0, change24h = Fin 0,
                        marketCap = Fin 0, quote_timestamp = now_data\<rparr>,
                     cache_after = cache, requests = [[tokenId]]\<rparr>)))"

section \<open>Weighted average APY (hooks/useSupply, hooks/useYield)\<close>

definition averageSupplyAPY :: "contract_state \<Rightarrow> jsnum" where
  "averageSupplyAPY st =
     (if length (supplies st) = 0 then Fin 0
      else
        let totalValue =
              foldl (\<lambda>sum s. js_add sum (js_mul (amount s) (price (token s)))) (Fin 0) (supplies st)
        in if js_eq totalValue (Fin 0) then Fin 0
           else
             foldl (\<lambda>sum s.
                      let weight = js_div (js_mul (amount s) (price (token s))) totalValue
                      in js_add sum (js_mul (apy s) weight))
               (Fin 0) (supplies st))"

definition averageAPY :: "contract_state \<Rightarrow> jsnum" where
  "averageAPY st =
     (if length (supplies st) = 0 \<or> js_eq (totalSupplied st) (Fin 0) then Fin 0
      else
        foldl (\<lambda>weightedSum supply.
                 let val = js_mul (amount supply) (price (token supply));
                     weight = js_div val (totalSupplied st)
                 in js_add weightedSum (js_mul (apy supply) weight))
          (Fin 0) (supplies st))"

section \<open>Compound projection (hooks/useYield)\<close>

text \<open>
  \<open>Math.pow\<close>: the exponent 0 gives 1 whatever the base; a negative base with a
  fractional exponent gives NaN.
\<close>

definition is_integer :: "real \<Rightarrow> bool" where
  "is_integer y = (y = of_int \<lfloor>y\<rfloor>)"

definition is_odd_integer :: "real \<Rightarrow> bool" where
  "is_odd_integer y = (is_integer y \<and> odd \<lfloor>y\<rfloor>)"

fun js_pow :: "jsnum \<Rightarrow> jsnum \<Rightarrow> jsnum" where
  "js_pow _ NaN = NaN"
| "js_pow (Fin x) (Fin y) =
     (if y = 0 then Fin 1
      else if 0 < x then Fin (x powr y)
      else if x = 0 then (if 0 < y then Fin 0 else PInf)
      else if is_integer y then Fin ((if is_odd_integer y then - 1 else 1) * (\<bar>x\<bar> powr y))
      else NaN)"
| "js_pow NaN (Fin y) = (if y = 0 then Fin 1 else NaN)"
| "js_pow PInf (Fin y) = (if y = 0 then Fin 1 else if 0 < y then PInf else Fin 0)"
| "js_pow NInf (Fin y) =
     (if y = 0 then Fin 1
      else if 0 < y then (if is_odd_integer y then NInf else PInf)
      else Fin 0)"
| "js_pow NaN _ = NaN"
| "js_pow (Fin x) PInf = (if 1 < \<bar>x\<bar> then PInf else if \<bar>x\<bar> = 1 then NaN else Fin 0)"
| "js_pow (Fin x) NInf = (if 1 < \<bar>x\<bar> then Fin 0 else if \<bar>x\<bar> = 1 then NaN else PInf)"
| "js_pow _ PInf = PInf"
| "js_pow _ NInf = Fin 0"

record projection =
  finalAmount :: jsnum
  totalInterest :: jsnum
  percentageGain :: jsnum

definition calculateCompoundProjection :: "jsnum \<Rightarrow> jsnum \<Rightarrow> jsnum \<Rightarrow> projection" where
  "calculateCompoundProjection principalAmount apy_pct years =
     (let rate = js_div apy_pct (Fin 100);
          amt = js_mul principalAmount
                  (js_pow (js_add (Fin 1) (js_div rate (Fin 365))) (js_mul (Fin 365) years));
          interest = js_sub amt principalAmount
      in \<lparr>finalAmount = amt,
          totalInterest = interest,
          percentageGain = js_mul (js_div interest principalAmount) (Fin 100)\<rparr>)"

section \<open>Notions of the specification\<close>

text \<open>
  The health factors that the specification classifies: the non-negative numbers and
  \<open>+\<infinity>\<close>.
\<close>

definition is_health_factor :: "jsnum \<Rightarrow> bool" where
  "is_health_factor h =
     (case h of Fin x \<Rightarrow> 0 \<le> x | PInf \<Rightarrow> True | NInf \<Rightarrow> False | NaN \<Rightarrow> False)"

text \<open>The bands of the risk classification, as the specification lists them.\<close>

definition spec_risk_class :: "jsnum \<Rightarrow> string" where
  "spec_risk_class h =
     (case h of
        Fin x \<Rightarrow>
          (if x < 1.0 then ''Liquidatable''
           else if 1.0 \<le> x \<and> x < 1.2 then ''Critical''
           else if 1.2 \<le> x \<and> x < 1.5 then ''Warning''
           else if 1.5 \<le> x \<and> x < 2.0 then ''Moderate''
           else if 2.0 \<le> x \<and> x \<le> 10.0 then ''Safe''
           else ''Healthy'')
      | PInf \<Rightarrow> ''Healthy''
      | NInf \<Rightarrow> ''Liquidatable''
      | NaN \<Rightarrow> ''Liquidatable'')"

text \<open>The classes in the order of safety, the liquidatable one lowest.\<close>

definition safety_rank :: "string \<Rightarrow> nat" where
  "safety_rank c =
     (if c = ''Liquidatable'' then 0
      else if c = ''Critical'' then 1
      else if c = ''Warning'' then 2
      else if c = ''Moderate'' then 3
      else if c = ''Safe'' then 4
      else if c = ''Healthy'' then 5
      else 0)"

text \<open>
  The invariant of the account snapshot: collateral times weighted liquidation
  threshold over debt, and \<open>+\<infinity>\<close> without debt.
\<close>

definition spec_health_factor :: "real \<Rightarrow> real \<Rightarrow> real \<Rightarrow> jsnum" where
  "spec_health_factor totalCollateralValue weightedLiquidationThreshold totalDebtValue =
     (if totalDebtValue = 0 then PInf
      else Fin (totalCollateralValue * weightedLiquidationThreshold / totalDebtValue))"

text \<open>The hypothetical delta of an action: on the collateral, or on the debt.\<close>

definition spec_collateral_after :: "string \<Rightarrow> real \<Rightarrow> real \<Rightarrow> real" where
  "spec_collateral_after action collateral delta =
     (if action = ''supply'' then collateral + delta
      else if action = ''withdraw'' then collateral - delta
      else collateral)"

definition spec_debt_after :: "string \<Rightarrow> real \<Rightarrow> real \<Rightarrow> real" where
  "spec_debt_after action debt delta =
     (if action = ''borrow'' then debt + delta
      else if action = ''repay'' then debt - delta
      else debt)"

text \<open>
  What the formatter shows for a collateral, a threshold and a debt: the infinity sign
  without debt and when the quotient exceeds 100, the quotient with two decimals
  otherwise.
\<close>

definition spec_formatted :: "real \<Rightarrow> real \<Rightarrow> real \<Rightarrow> hf_text" where
  "spec_formatted c t d =
     (if d = 0 \<or> 100 < c * t / d then Infinity_sign
      else Number_text (toFixed 2 (Fin (c * t / d))))"


subsection \<open>Example data\<close>

definition example_account :: account_data where
  "example_account =
     \<lparr>totalCollateralETH = Fin 1000, totalDebtETH = Fin 100, availableBorrowsETH = Fin 700,
      currentLiquidationThreshold = Fin 0.8, currentLtv = Fin 0.75, currentHealthFactor = Fin 8\<rparr>"

text \<open>
  The scenario of the specification: a collateral of 10000 in USDC (liquidation
  threshold 0.90) and no debt, as the session state and as the account data.
\<close>

definition scenario_state :: contract_state where
  "scenario_state =
     \<lparr>supplies = [], borrows = [], totalSupplied = Fin 10000, totalBorrowed = Fin 0,
      healthFactor = PInf, availableToBorrow = Fin 8700, isLoading = False, error_msg = None\<rparr>"

definition scenario_account :: account_data where
  "scenario_account =
     \<lparr>totalCollateralETH = Fin 10000, totalDebtETH = Fin 0, availableBorrowsETH = Fin 8700,
      currentLiquidationThreshold = Fin 0.9, currentLtv = Fin 0.87, currentHealthFactor = PInf\<rparr>"

definition indebted_state :: contract_state where
  "indebted_state =
     \<lparr>supplies = [], borrows = [], totalSupplied = Fin 1000, totalBorrowed = Fin 500,
      healthFactor = Fin 1.7, availableToBorrow = Fin 200, isLoading = False, error_msg = None\<rparr>"

text \<open>
  A pool that confirms every transaction, a pool that rejects every transaction, and a
  price feed that is down.
\<close>

definition confirming_pool :: pool_call where
  "confirming_pool tok q = Inr ''0xreceipt''"


definition failing_fetch :: price_fetch where
  "failing_fetch ids = Inl ''Network Error''"


text \<open>The price data that stands for an unknown price.\<close>

definition zero_price_data :: "string \<Rightarrow> int \<Rightarrow> price_data" where
  "zero_price_data s t =
     \<lparr>quote_symbol = s, quote_price = Fin 0, change24h = Fin 0, marketCap = Fin 0,
      quote_timestamp = t\<rparr>"

definition dai_quote :: price_data where
  "dai_quote = \<lparr>quote_symbol = ''DAI'', quote_price = Fin 1, change24h = Fin 0,
     marketCap = Fin 5000000000, quote_timestamp = 1000\<rparr>"

definition dai_cache :: price_cache where
  "dai_cache = Map.empty(''price_DAI'' \<mapsto> \<lparr>data = dai_quote, stored_at = 1000\<rparr>)"

subsection \<open>Positions with finite numbers\<close>

definition is_fin :: "jsnum \<Rightarrow> bool" where
  "is_fin x = (case x of Fin a \<Rightarrow> True | PInf \<Rightarrow> False | NInf \<Rightarrow> False | NaN \<Rightarrow> False)"

definition fin_val :: "jsnum \<Rightarrow> real" where
  "fin_val x = (case x of Fin a \<Rightarrow> a | PInf \<Rightarrow> 0 | NInf \<Rightarrow> 0 | NaN \<Rightarrow> 0)"

definition finite_position :: "position \<Rightarrow> bool" where
  "finite_position s = (is_fin (amount s) \<and> is_fin (price (token s)) \<and> is_fin (apy s))"

definition position_value :: "position \<Rightarrow> real" where
  "position_value s = fin_val (amount s) * fin_val (price (token s))"

definition position_apy :: "position \<Rightarrow> real" where
  "position_apy s = fin_val (apy s)"

definition total_value :: "position list \<Rightarrow> real" where
  "total_value ss = sum_list (map position_value ss)"

text \<open>
  The weighted average APY of the specification: the sum of value times APY over the
  sum of the values, and 0 when the total value is 0.
\<close>

definition spec_weighted_apy :: "position list \<Rightarrow> real" where
  "spec_weighted_apy ss =
     (if total_value ss = 0 then 0
      else sum_list (map (\<lambda>s. position_value s * position_apy s) ss) / total_value ss)"

definition priced_dai :: token where
  "priced_dai = TOKEN_DAI\<lparr>price := Fin 1\<rparr>"

definition dai_position :: position where
  "dai_position =
     \<lparr>pos_id = 1, token = priced_dai, amount = Fin 10, apy = Fin 4, txHash = ''0x01''\<rparr>"

text \<open>A session that holds the given positions, as supplies and as borrows.\<close>

definition holding :: "position list \<Rightarrow> contract_state" where
  "holding ss =
     \<lparr>supplies = ss, borrows = ss, totalSupplied = Fin (total_value ss),
      totalBorrowed = Fin (total_value ss), healthFactor = Fin 0.85,
      availableToBorrow = Fin 0, isLoading = False, error_msg = None\<rparr>"

text \<open>
  The session as the provider creates it, and the session after 10 DAI of the registry
  have been supplied to a pool that confirms.
\<close>

definition initial_state :: contract_state where
  "initial_state =
     \<lparr>supplies = [], borrows = [], totalSupplied = Fin 0, totalBorrowed = Fin 0,
      healthFactor = PInf, availableToBorrow = Fin 0, isLoading = False, error_msg = None\<rparr>"

definition after_dai_supply :: contract_state where
  "after_dai_supply =
     snd (supply_assets True confirming_pool None 1700000000000 TOKEN_DAI (Entered (Fin 10))
            initial_state)"

section \<open>Risk classification\<close>

lemma status_text_eq:
  "is_health_factor h \<Longrightarrow> status_text (getHealthFactorStatus h) = spec_risk_class h"
  by (cases h)
    (auto simp: is_health_factor_def getHealthFactorStatus_def spec_risk_class_def
      js_eq_def js_gt_def js_ge_def)

lemma rank_mono_aux:
  "is_health_factor a \<Longrightarrow> is_health_factor b \<Longrightarrow> js_lt a b \<Longrightarrow>
     safety_rank (spec_risk_class a) \<le> safety_rank (spec_risk_class b)"
  by (cases a; cases b) (auto simp: is_health_factor_def spec_risk_class_def safety_rank_def)

text \<open>
  Claim C4.  On the non-negative numbers and \<open>+\<infinity>\<close> the status of a health factor is
  the class of the band it lies in (below 1.0 Liquidatable, from 1.0 below 1.2 Critical,
  from 1.2 below 1.5 Warning, from 1.5 below 2.0 Moderate, from 2.0 to 10.0 Safe, above
  10.0 or \<open>+\<infinity>\<close> Healthy), one class for every value; and the classification is
  monotonic: of two health factors \<open>a < b\<close>, the class of \<open>a\<close> is never safer than the
  class of \<open>b\<close>.
\<close>

theorem risk_classification_total_monotonic:
  assumes "is_health_factor a" and "is_health_factor b"
  shows "status_text (getHealthFactorStatus a) = spec_risk_class a \<and>
         (js_lt a b \<longrightarrow>
            safety_rank (status_text (getHealthFactorStatus a))
              \<le> safety_rank (status_text (getHealthFactorStatus b)))"
  using assms by (simp add: status_text_eq rank_mono_aux)

theorem risk_classification_witness:
  "is_health_factor (Fin 1.8) \<and> is_health_factor PInf \<and> js_lt (Fin 1.8) PInf \<and>
   status_text (getHealthFactorStatus (Fin 1.8)) = ''Moderate'' \<and>
   safety_rank (status_text (getHealthFactorStatus (Fin 1.8)))
     \<le> safety_rank (status_text (getHealthFactorStatus PInf))"
  using risk_classification_total_monotonic [of "Fin 1.8" PInf]
  by (auto simp: is_health_factor_def spec_risk_class_def)

lemma threshold_constants_classes:
  "status_text (getHealthFactorStatus HEALTH_FACTOR_CRITICAL) = ''Critical'' \<and>
   status_text (getHealthFactorStatus HEALTH_FACTOR_WARNING) = ''Warning'' \<and>
   status_text (getHealthFactorStatus HEALTH_FACTOR_SAFE) = ''Moderate'' \<and>
   status_text (getHealthFactorStatus HEALTH_FACTOR_HEALTHY) = ''Safe''"
  by (simp add: getHealthFactorStatus_def HEALTH_FACTOR_CRITICAL_def HEALTH_FACTOR_WARNING_def
      HEALTH_FACTOR_SAFE_def HEALTH_FACTOR_HEALTHY_def js_eq_def js_gt_def js_ge_def)

section \<open>The health factor formula\<close>

lemma prediction_debt_unchanged:
  assumes "totalCollateralETH acct = Fin c" and "totalDebtETH acct = Fin d"
    and "currentLiquidationThreshold acct = Fin t"
    and "action \<noteq> ''borrow''" and "action \<noteq> ''repay''"
  shows "calculateHealthFactorAfterAction (Inr acct) (Inr (Fin p)) (Fin q) action =
           Inr (spec_health_factor (spec_collateral_after action c (q * p)) t d)"
  using assms
  by (simp add: calculateHealthFactorAfterAction_def spec_health_factor_def
      spec_collateral_after_def js_eq_def js_sub_def Let_def)

lemma format_given_threshold:
  "formatHealthFactor (Fin c) (Fin d) (Some (Fin t)) = spec_formatted c t d"
  by (simp add: formatHealthFactor_def spec_formatted_def js_eq_def js_gt_def Let_def)

lemma format_default_threshold:
  "formatHealthFactor (Fin c) (Fin d) None = spec_formatted c 0.85 d"
  by (simp add: formatHealthFactor_def spec_formatted_def js_eq_def js_gt_def Let_def)

text \<open>
  Claim C1, as stated, fails on the formatter: with a collateral of 1000, a debt of 1
  and a threshold of 0.85 the debt is positive and the quotient is 850, yet
  \<open>formatHealthFactor\<close> returns the infinity sign.
\<close>

theorem format_health_factor_counterexample:
  "(0::real) < 1 \<and> spec_health_factor 1000 0.85 1 = Fin 850 \<and>
   formatHealthFactor (Fin 1000) (Fin 1) (Some (Fin 0.85)) = Infinity_sign"
  by (simp add: spec_health_factor_def formatHealthFactor_def js_eq_def js_gt_def Let_def)

text \<open>
  Claim C1, amended.  For every account state with finite totals and a debt that is not
  negative, the health factor that the prediction computes for the account as it is
  read, or as it stands after a supply or a withdrawal (the debt is the one read), is
  collateral times weighted liquidation threshold over debt when the debt is positive
  and \<open>+\<infinity>\<close> when the debt is 0.  The formatter takes the threshold as an argument, 0.85
  when none is passed; it shows the infinity sign when the debt is 0 and also when
  collateral times threshold over debt exceeds 100, and that quotient with two decimals
  otherwise.
\<close>

theorem health_factor_formula_amended:
  assumes "totalCollateralETH acct = Fin c" and "totalDebtETH acct = Fin d"
    and "currentLiquidationThreshold acct = Fin t" and "0 \<le> d"
    and "action \<noteq> ''borrow''" and "action \<noteq> ''repay''"
  shows "calculateHealthFactorAfterAction (Inr acct) (Inr (Fin p)) (Fin q) action =
           Inr (spec_health_factor (spec_collateral_after action c (q * p)) t d) \<and>
         formatHealthFactor (Fin c) (Fin d) (Some (Fin t)) = spec_formatted c t d \<and>
         formatHealthFactor (Fin c) (Fin d) None = spec_formatted c 0.85 d"
  using assms(1,2,3,5,6)
  by (simp add: prediction_debt_unchanged format_given_threshold format_default_threshold)

theorem health_factor_formula_amended_witness:
  "(0::real) \<le> 100 \<and> ''supply'' \<noteq> ''borrow'' \<and> ''supply'' \<noteq> ''repay'' \<and>
   calculateHealthFactorAfterAction (Inr example_account) (Inr (Fin 2)) (Fin 50) ''supply'' =
     Inr (Fin 8.8) \<and>
   calculateHealthFactorAfterAction (Inr scenario_account) (Inr (Fin 2)) (Fin 50) ''none'' =
     Inr PInf \<and>
   formatHealthFactor (Fin 1000) (Fin 100) (Some (Fin 0.8)) = Number_text (Decimal 800 2) \<and>
   formatHealthFactor (Fin 1000) (Fin 100) None = Number_text (Decimal 850 2) \<and>
   formatHealthFactor (Fin 10000) (Fin 0) None = Infinity_sign"
  using health_factor_formula_amended [of example_account 1000 100 "0.8" "''supply''" 2 50]
    health_factor_formula_amended [of scenario_account 10000 0 "0.9" "''none''" 2 50]
  by (simp add: example_account_def scenario_account_def spec_health_factor_def
      spec_collateral_after_def spec_formatted_def)

section \<open>Repaying more than the debt\<close>

lemma exact_repay_is_infinite:
  assumes "totalDebtETH acct = Fin d" and "q * p = d"
  shows "calculateHealthFactorAfterAction (Inr acct) (Inr (Fin p)) (Fin q) ''repay'' = Inr PInf"
  using assms
  by (simp add: calculateHealthFactorAfterAction_def js_eq_def js_sub_def Let_def)

text \<open>
  Claim C2 asks for \<open>+\<infinity>\<close> whenever a repayment clears the debt.  The prediction tests
  the new debt for equality with 0 only: with a collateral of 1000, a debt of 100 and a
  threshold of 0.8, repaying 200 at price 1 leaves a debt of \<open>-100\<close> and the prediction
  is the negative number \<open>-8\<close>.
\<close>

theorem over_repay_negative_health_factor:
  "calculateHealthFactorAfterAction (Inr example_account) (Inr (Fin 1)) (Fin 200) ''repay'' =
     Inr (Fin (- 8))"
  by (simp add: calculateHealthFactorAfterAction_def example_account_def js_eq_def js_sub_def
      Let_def)

section \<open>The threshold of the borrow prediction\<close>

text \<open>
  Claim C3 asks every prediction to use the weighted liquidation threshold of the
  account data.  \<open>calculateHealthFactorAfterAction\<close> does; \<open>calculateNewHealthFactor\<close>
  multiplies by the constant 0.85.  In the scenario of the specification (collateral
  10000, threshold 0.90, no debt, borrowing 5000 DAI at price 1) the former predicts 1.8
  and the latter 1.7.
\<close>

theorem borrow_prediction_fixed_threshold:
  "calculateNewHealthFactor scenario_state (Entered (Fin 5000)) (TOKEN_DAI\<lparr>price := Fin 1\<rparr>) =
     Fin 1.7 \<and>
   calculateHealthFactorAfterAction (Inr scenario_account) (Inr (Fin 1)) (Fin 5000) ''borrow'' =
     Inr (Fin 1.8)"
  by (simp add: calculateNewHealthFactor_def calculateHealthFactorAfterAction_def
      scenario_state_def scenario_account_def js_eq_def Let_def)

section \<open>Borrow validation\<close>

lemma priced_borrow_accepted_is_safe:
  assumes "price tok = Fin p" and "totalSupplied st = Fin s" and "totalBorrowed st = Fin b"
    and "validateBorrowAmount st (Entered (Fin q)) (Some tok) = (True, e)"
  shows "js_ge (calculateNewHealthFactor st (Entered (Fin q)) tok) HEALTH_FACTOR_SAFE"
  using assms
  by (auto simp: validateBorrowAmount_def calculateNewHealthFactor_def HEALTH_FACTOR_SAFE_def
      js_eq_def js_ge_def Let_def split: if_splits)

lemma below_safe_is_rejected:
  assumes "js_lt (calculateNewHealthFactor st amt tok) HEALTH_FACTOR_SAFE"
  shows "fst (validateBorrowAmount st amt (Some tok)) = False"
  using assms by (simp add: validateBorrowAmount_def Let_def)

lemma below_safe_not_submitted:
  assumes "js_lt (calculateNewHealthFactor st amt tok) HEALTH_FACTOR_SAFE"
  shows "\<exists>e. borrow isConnected pool st tok amt = Not_submitted e"
  using below_safe_is_rejected [OF assms]
  by (cases "validateBorrowAmount st amt (Some tok)") (auto simp: borrow_def)

text \<open>
  Claim C10 asks that an accepted borrow is predicted at 1.5 or above.  The validation
  rejects when the prediction is below 1.5, and a comparison with NaN is false.  The
  tokens of the registry have no price, so for the registry's DAI and the amount 1000
  (with 1000 supplied and 500 borrowed) the ceiling \<open>getMaxBorrowable\<close> and the
  prediction are both NaN: the validation accepts, the prediction is not at least 1.5,
  and \<open>borrow\<close> submits the transaction.
\<close>

theorem unpriced_token_borrow_accepted:
  "validateBorrowAmount indebted_state (Entered (Fin 1000)) (Some TOKEN_DAI) = (True, None) \<and>
   calculateNewHealthFactor indebted_state (Entered (Fin 1000)) TOKEN_DAI = NaN \<and>
   \<not> js_ge (calculateNewHealthFactor indebted_state (Entered (Fin 1000)) TOKEN_DAI)
       HEALTH_FACTOR_SAFE \<and>
   borrow True confirming_pool indebted_state TOKEN_DAI (Entered (Fin 1000)) =
     Submitted (Inr ''0xreceipt'')"
  by (simp add: validateBorrowAmount_def calculateNewHealthFactor_def getMaxBorrowable_def
      borrow_def indebted_state_def TOKEN_DAI_def confirming_pool_def HEALTH_FACTOR_SAFE_def
      js_eq_def js_gt_def js_ge_def Let_def)

section \<open>An unknown price\<close>









section \<open>Compound projection\<close>

lemma pow_pos_base: "0 < x \<Longrightarrow> js_pow (Fin x) (Fin y) = Fin (x powr y)"
  by simp

text \<open>
  Claim C9.  For a principal, an APY and a number of years that are all non-negative
  (fractional years allowed), the projection returns the final amount principal times
  \<open>(1 + apy/100/365)\<close> to the power \<open>365 \<times> years\<close> and the total interest final amount
  minus principal; with 0 years the final amount is the principal and the interest 0.
\<close>

theorem compound_projection_formula:
  assumes "0 \<le> p" and "0 \<le> a" and "0 \<le> y"
  shows "finalAmount (calculateCompoundProjection (Fin p) (Fin a) (Fin y)) =
           Fin (p * (1 + a / 100 / 365) powr (365 * y)) \<and>
         totalInterest (calculateCompoundProjection (Fin p) (Fin a) (Fin y)) =
           Fin (p * (1 + a / 100 / 365) powr (365 * y) - p) \<and>
         (y = 0 \<longrightarrow>
            finalAmount (calculateCompoundProjection (Fin p) (Fin a) (Fin y)) = Fin p \<and>
            totalInterest (calculateCompoundProjection (Fin p) (Fin a) (Fin y)) = Fin 0)"
proof -
  have base: "0 < 1 + a / 100 / 365"
    using assms(2) by (simp add: add_pos_nonneg)
  have pow: "js_pow (Fin (1 + a / 100 / 365)) (Fin (365 * y)) =
      Fin ((1 + a / 100 / 365) powr (365 * y))"
    using base by (rule pow_pos_base)
  have fin: "finalAmount (calculateCompoundProjection (Fin p) (Fin a) (Fin y)) =
           Fin (p * (1 + a / 100 / 365) powr (365 * y))"
    unfolding calculateCompoundProjection_def Let_def using pow by simp
  have int: "totalInterest (calculateCompoundProjection (Fin p) (Fin a) (Fin y)) =
           Fin (p * (1 + a / 100 / 365) powr (365 * y) - p)"
    unfolding calculateCompoundProjection_def Let_def js_sub_def using pow by simp
  have zero: "(1 + a / 100 / 365) powr (365 * 0) = 1"
    using base by simp
  have at_zero: "y = 0 \<longrightarrow>
      finalAmount (calculateCompoundProjection (Fin p) (Fin a) (Fin y)) = Fin p \<and>
      totalInterest (calculateCompoundProjection (Fin p) (Fin a) (Fin y)) = Fin 0"
  proof
    assume "y = 0"
    then show "finalAmount (calculateCompoundProjection (Fin p) (Fin a) (Fin y)) = Fin p \<and>
      totalInterest (calculateCompoundProjection (Fin p) (Fin a) (Fin y)) = Fin 0"
      using fin int zero by simp
  qed
  show ?thesis using fin int at_zero by blast
qed

theorem compound_projection_witness:
  "(0::real) \<le> 1000 \<and> (0::real) \<le> 73 \<and> (0::real) \<le> 2 / 365 \<and>
   finalAmount (calculateCompoundProjection (Fin 1000) (Fin 73) (Fin (2 / 365))) = Fin 1004.004 \<and>
   totalInterest (calculateCompoundProjection (Fin 1000) (Fin 73) (Fin (2 / 365))) = Fin 4.004 \<and>
   finalAmount (calculateCompoundProjection (Fin 1000) (Fin 73) (Fin 0)) = Fin 1000 \<and>
   totalInterest (calculateCompoundProjection (Fin 1000) (Fin 73) (Fin 0)) = Fin 0"
  using compound_projection_formula [of 1000 73 "2 / 365"]
    compound_projection_formula [of 1000 73 0]
  by (simp add: power2_eq_square)

section \<open>Reducing a position by more than it holds\<close>

lemma supplies_load [simp]: "supplies (loadUserAccountData rd st) = supplies st"
  by (simp add: loadUserAccountData_def split: option.splits sum.splits)

lemma borrows_load [simp]: "borrows (loadUserAccountData rd st) = borrows st"
  by (simp add: loadUserAccountData_def split: option.splits sum.splits)

lemma error_msg_load [simp]: "error_msg (loadUserAccountData rd st) = error_msg st"
  by (simp add: loadUserAccountData_def split: option.splits sum.splits)







section \<open>The price cache\<close>

lemma lookup_fresh:
  assumes "cache (''price_'' @ s) = Some entry" and "now - stored_at entry < 60 * 1000"
  shows "getTokenPrice f now now_data now_store cache s =
           \<lparr>returned = data entry, cache_after = cache, requests = []\<rparr>"
  using assms by (simp add: getTokenPrice_def getCachedPrice_def CACHE_DURATION_def Let_def)

lemma lookup_not_fresh_requests:
  assumes "cache (''price_'' @ s) = None \<or>
           (\<exists>entry. cache (''price_'' @ s) = Some entry \<and> \<not> now - stored_at entry < 60 * 1000)"
  shows "requests (getTokenPrice f now now_data now_store cache s) = [[getTokenId s]]"
  using assms
  by (auto simp: getTokenPrice_def getCachedPrice_def CACHE_DURATION_def Let_def
      split: sum.splits option.splits)

lemma lookup_not_fresh_failure:
  assumes "cache (''price_'' @ s) = None \<or>
           (\<exists>entry. cache (''price_'' @ s) = Some entry \<and> \<not> now - stored_at entry < 60 * 1000)"
    and "f [getTokenId s] = Inl e"
  shows "cache_after (getTokenPrice f now now_data now_store cache s) = cache \<and>
         returned (getTokenPrice f now now_data now_store cache s) =
           (case cache (''price_'' @ s) of
              Some entry \<Rightarrow> data entry
            | None \<Rightarrow> zero_price_data s now_data)"
  using assms
  by (auto simp: getTokenPrice_def getCachedPrice_def CACHE_DURATION_def zero_price_data_def Let_def
      split: sum.splits option.splits)

lemma lookup_keeps_entries:
  assumes "cache k = Some entry"
  shows "cache_after (getTokenPrice f now now_data now_store cache s) k \<noteq> None"
  using assms
  by (auto simp: getTokenPrice_def getCachedPrice_def setCachedPrice_def Let_def
      split: sum.splits option.splits)

text \<open>
  Claim C7.  For every price request: when the cache holds an entry whose age is
  strictly less than the TTL of 60 seconds, the cached value is returned and no request
  is issued; otherwise one refresh request is issued, and when it fails the last cached
  value is returned if there is one, stale as it is, and the zero price otherwise, the
  cache staying as it was.  No entry of the cache is ever dropped by a request.
\<close>

theorem price_cache_policy:
  "(\<forall>entry. cache (''price_'' @ s) = Some entry \<and> now - stored_at entry < 60 * 1000 \<longrightarrow>
      returned (getTokenPrice f now now_data now_store cache s) = data entry \<and>
      requests (getTokenPrice f now now_data now_store cache s) = [] \<and>
      cache_after (getTokenPrice f now now_data now_store cache s) = cache) \<and>
   (cache (''price_'' @ s) = None \<or>
      (\<exists>entry. cache (''price_'' @ s) = Some entry \<and> \<not> now - stored_at entry < 60 * 1000) \<longrightarrow>
      requests (getTokenPrice f now now_data now_store cache s) = [[getTokenId s]] \<and>
      (\<forall>e. f [getTokenId s] = Inl e \<longrightarrow>
         cache_after (getTokenPrice f now now_data now_store cache s) = cache \<and>
         returned (getTokenPrice f now now_data now_store cache s) =
           (case cache (''price_'' @ s) of
              Some entry \<Rightarrow> data entry
            | None \<Rightarrow> zero_price_data s now_data))) \<and>
   (\<forall>k entry. cache k = Some entry \<longrightarrow>
      cache_after (getTokenPrice f now now_data now_store cache s) k \<noteq> None)"
proof (intro conjI allI impI)
  fix entry
  assume h: "cache (''price_'' @ s) = Some entry \<and> now - stored_at entry < 60 * 1000"
  then have eq: "getTokenPrice f now now_data now_store cache s =
           \<lparr>returned = data entry, cache_after = cache, requests = []\<rparr>"
    using lookup_fresh [of cache s entry now] by simp
  show "returned (getTokenPrice f now now_data now_store cache s) = data entry"
    by (simp add: eq)
  show "requests (getTokenPrice f now now_data now_store cache s) = []"
    by (simp add: eq)
  show "cache_after (getTokenPrice f now now_data now_store cache s) = cache"
    by (simp add: eq)
next
  assume h: "cache (''price_'' @ s) = None \<or>
      (\<exists>entry. cache (''price_'' @ s) = Some entry \<and> \<not> now - stored_at entry < 60 * 1000)"
  show "requests (getTokenPrice f now now_data now_store cache s) = [[getTokenId s]]"
    using lookup_not_fresh_requests [of cache s now, OF h] by simp
  fix e assume e: "f [getTokenId s] = Inl e"
  show "cache_after (getTokenPrice f now now_data now_store cache s) = cache"
    using lookup_not_fresh_failure [of cache s now f e, OF h e] by simp
  show "returned (getTokenPrice f now now_data now_store cache s) =
           (case cache (''price_'' @ s) of
              Some entry \<Rightarrow> data entry
            | None \<Rightarrow> zero_price_data s now_data)"
    using lookup_not_fresh_failure [of cache s now f e, OF h e] by simp
next
  fix k entry assume "cache k = Some entry"
  then show "cache_after (getTokenPrice f now now_data now_store cache s) k \<noteq> None"
    using lookup_keeps_entries [of cache k entry] by simp
qed

theorem price_cache_policy_witness:
  "dai_cache (''price_'' @ ''DAI'') = Some \<lparr>data = dai_quote, stored_at = 1000\<rparr> \<and>
   (60999::int) - 1000 < 60 * 1000 \<and> \<not> (61000::int) - 1000 < 60 * 1000 \<and>
   returned (getTokenPrice failing_fetch 60999 61005 61006 dai_cache ''DAI'') = dai_quote \<and>
   requests (getTokenPrice failing_fetch 60999 61005 61006 dai_cache ''DAI'') = [] \<and>
   requests (getTokenPrice failing_fetch 61000 61005 61006 dai_cache ''DAI'') = [[''dai'']] \<and>
   returned (getTokenPrice failing_fetch 61000 61005 61006 dai_cache ''DAI'') = dai_quote \<and>
   cache_after (getTokenPrice failing_fetch 61000 61005 61006 dai_cache ''DAI'') = dai_cache \<and>
   returned (getTokenPrice failing_fetch 61000 61005 61006 Map.empty ''DAI'') =
     zero_price_data ''DAI'' 61005"
  using price_cache_policy [of dai_cache "''DAI''" 60999 failing_fetch 61005 61006]
    price_cache_policy [of dai_cache "''DAI''" 61000 failing_fetch 61005 61006]
    price_cache_policy [of Map.empty "''DAI''" 61000 failing_fetch 61005 61006]
  by (simp add: dai_cache_def failing_fetch_def getTokenId_def TOKEN_ID_MAP_def)


section \<open>Weighted average APY\<close>

lemma finite_positionE:
  assumes "finite_position s"
  obtains a p y where "amount s = Fin a" and "price (token s) = Fin p" and "apy s = Fin y"
  using assms unfolding finite_position_def is_fin_def
  by (cases "amount s"; cases "price (token s)"; cases "apy s") auto

lemma foldl_total:
  "list_all finite_position ss \<Longrightarrow>
   foldl (\<lambda>sum s. js_add sum (js_mul (amount s) (price (token s)))) (Fin a) ss =
     Fin (a + total_value ss)"
proof (induction ss arbitrary: a)
  case Nil
  then show ?case by (simp add: total_value_def)
next
  case (Cons s ss)
  from Cons.prems have fs: "finite_position s" and rest: "list_all finite_position ss" by simp_all
  from fs obtain x p y where "amount s = Fin x" and "price (token s) = Fin p" and "apy s = Fin y"
    by (rule finite_positionE)
  then have step: "js_add (Fin a) (js_mul (amount s) (price (token s))) = Fin (a + position_value s)"
    by (simp add: position_value_def fin_val_def)
  show ?case
    using Cons.IH [OF rest, of "a + position_value s"] step
    by (simp add: total_value_def add.assoc)
qed

lemma foldl_weighted:
  assumes "t \<noteq> 0"
  shows "list_all finite_position ss \<Longrightarrow>
   foldl (\<lambda>sum s. js_add sum (js_mul (apy s) (js_div (js_mul (amount s) (price (token s))) (Fin t))))
     (Fin a) ss =
     Fin (a + sum_list (map (\<lambda>s. position_value s * position_apy s) ss) / t)"
proof (induction ss arbitrary: a)
  case Nil
  then show ?case by simp
next
  case (Cons s ss)
  from Cons.prems have fs: "finite_position s" and rest: "list_all finite_position ss" by simp_all
  from fs obtain x p y where "amount s = Fin x" and "price (token s) = Fin p" and "apy s = Fin y"
    by (rule finite_positionE)
  then have step:
    "js_add (Fin a) (js_mul (apy s) (js_div (js_mul (amount s) (price (token s))) (Fin t))) =
       Fin (a + position_value s * position_apy s / t)"
    using assms by (simp add: position_value_def position_apy_def fin_val_def)
  show ?case
    using Cons.IH [OF rest, of "a + position_value s * position_apy s / t"] step
    by (simp add: add_divide_distrib add.assoc)
qed

lemma averageSupplyAPY_formula:
  assumes "list_all finite_position (supplies st)"
  shows "averageSupplyAPY st = Fin (spec_weighted_apy (supplies st))"
proof (cases "total_value (supplies st) = 0")
  case True
  then show ?thesis
    using foldl_total [OF assms, of 0]
    by (simp add: averageSupplyAPY_def spec_weighted_apy_def js_eq_def Let_def)
next
  case False
  then have ne: "supplies st \<noteq> []" by (auto simp: total_value_def)
  show ?thesis
    using False ne foldl_total [OF assms, of 0]
      foldl_weighted [OF False assms, of 0]
    by (simp add: averageSupplyAPY_def spec_weighted_apy_def js_eq_def Let_def)
qed

lemma averageAPY_formula:
  assumes "list_all finite_position (supplies st)" and "totalSupplied st = Fin t"
  shows "averageAPY st =
           (if supplies st = [] \<or> t = 0 then Fin 0
            else Fin (sum_list (map (\<lambda>s. position_value s * position_apy s) (supplies st)) / t))"
proof (cases "supplies st = [] \<or> t = 0")
  case True
  then show ?thesis using assms(2) by (auto simp: averageAPY_def js_eq_def)
next
  case False
  then have t: "t \<noteq> 0" and ne: "supplies st \<noteq> []" by simp_all
  show ?thesis
    using t ne assms(2) foldl_weighted [OF t assms(1), of 0]
    by (simp add: averageAPY_def js_eq_def Let_def)
qed

text \<open>
  Claim C8 asks for the weighted average of the position APYs, the APY itself over a
  single position.  A position that \<open>supply\<close> creates carries a token of the registry,
  which has no price: after 10 DAI are supplied from the initial session, the session
  holds that one position (APY 4) and both averages are NaN.  Besides, \<open>averageAPY\<close>
  divides by the supplied total of the session, not by the sum of the position values:
  for one position of 10 DAI at price 1 with an APY of 4 and a supplied total of 20,
  \<open>averageSupplyAPY\<close> is 4 and \<open>averageAPY\<close> is 2.
\<close>

theorem average_apy_of_supplied_position:
  "supplies after_dai_supply =
     [\<lparr>pos_id = 1700000000000, token = TOKEN_DAI, amount = Fin 10, apy = Fin 4,
       txHash = ''0xreceipt''\<rparr>] \<and>
   averageSupplyAPY after_dai_supply = NaN \<and>
   averageAPY after_dai_supply = NaN \<and>
   averageSupplyAPY ((holding [dai_position])\<lparr>totalSupplied := Fin 20\<rparr>) = Fin 4 \<and>
   averageAPY ((holding [dai_position])\<lparr>totalSupplied := Fin 20\<rparr>) = Fin 2"
  by (simp add: after_dai_supply_def supply_assets_def initial_state_def confirming_pool_def
      loadUserAccountData_def TOKEN_DAI_def averageSupplyAPY_def averageAPY_def holding_def
      dai_position_def priced_dai_def js_eq_def Let_def)


end
